theory Spec2Isabelle
  imports Complex_Main
begin

section \<open>Point-set structures of \<open>nibabel/pointset.py\<close>\<close>

text \<open>
  The module couples a coordinate array with an affine matrix (\<open>Pointset\<close>), adds a
  triangle table (\<open>TriangularMesh\<close>, \<open>TriMeshFamily\<close>), converts between masks and
  index coordinates (\<open>Grid\<close>) and generates voxel indices on demand (\<open>GridIndices\<close>).

  Numbers are modelled exactly: an array element is an element of an ordered field (or an
  integer, for index arrays), so sums and products do not round. The element type of an
  array plays the part of numpy's \<open>dtype\<close>.
\<close>

subsection \<open>Exceptions\<close>

datatype pyerr =
    ValueError string
  | TypeError string
  | IndexError string
  | KeyError string
  | AttributeError string
  | StopIteration

subsection \<open>Two-dimensional arrays\<close>

text \<open>
  A two-dimensional numpy array: its shape and its rows. The shape is kept beside the rows
  because an array of shape \<open>(0, k)\<close> has no row to read \<open>k\<close> from.
\<close>

record 'a ndarray =
  nrows :: nat
  ncols :: nat
  rows :: "'a list list"

definition ndarray_ok :: "'a ndarray \<Rightarrow> bool" where
  "ndarray_ok a \<longleftrightarrow> length (rows a) = nrows a \<and> list_all (\<lambda>r. length r = ncols a) (rows a)"

text \<open>\<open>np.eye(n)\<close>\<close>

definition eye :: "nat \<Rightarrow> ('a::{zero,one}) ndarray" where
  "eye n = \<lparr>nrows = n, ncols = n,
            rows = map (\<lambda>i. map (\<lambda>j. if i = j then 1 else 0) [0..<n]) [0..<n]\<rparr>"

text \<open>\<open>a.T\<close>\<close>

definition T :: "'a ndarray \<Rightarrow> 'a ndarray" where
  "T a = \<lparr>nrows = ncols a, ncols = nrows a,
          rows = map (\<lambda>j. map (\<lambda>r. r ! j) (rows a)) [0..<ncols a]\<rparr>"

text \<open>The matrix product: element \<open>(i, j)\<close> is the sum over \<open>k\<close> of \<open>a[i, k] * b[k, j]\<close>.\<close>

definition matrix_product :: "('a::semiring_0) ndarray \<Rightarrow> 'a ndarray \<Rightarrow> 'a ndarray" where
  "matrix_product a b =
     \<lparr>nrows = nrows a, ncols = ncols b,
      rows = map (\<lambda>r. map (\<lambda>j. sum_list (map (\<lambda>k. r ! k * rows b ! k ! j) [0..<ncols a]))
                        [0..<ncols b]) (rows a)\<rparr>"

text \<open>\<open>a @ b\<close> for two-dimensional operands; numpy raises ValueError on a mismatch of the
  inner dimensions.\<close>

definition matmul :: "('a::semiring_0) ndarray \<Rightarrow> 'a ndarray \<Rightarrow> pyerr + 'a ndarray" where
  "matmul a b =
     (if ncols a \<noteq> nrows b then Inl (ValueError ''matmul: mismatch in core dimension'')
      else Inr (matrix_product a b))"

text \<open>\<open>np.hstack((a, b))\<close> for two-dimensional operands.\<close>

definition hstack :: "'a ndarray \<Rightarrow> 'a ndarray \<Rightarrow> pyerr + 'a ndarray" where
  "hstack a b =
     (if nrows a \<noteq> nrows b then Inl (ValueError ''hstack: array dimensions must match'')
      else Inr \<lparr>nrows = nrows a, ncols = ncols a + ncols b,
                rows = map (\<lambda>(r, r'). r @ r') (zip (rows a) (rows b))\<rparr>)"

text \<open>\<open>a[:, :-1]\<close>\<close>

definition drop_last_column :: "'a ndarray \<Rightarrow> 'a ndarray" where
  "drop_last_column a = \<lparr>nrows = nrows a, ncols = ncols a - 1, rows = map butlast (rows a)\<rparr>"

text \<open>
  \<open>np.allclose(a, b)\<close> with the default tolerances \<open>rtol = 1e-05\<close> and \<open>atol = 1e-08\<close>:
  every element satisfies \<open>|a - b| \<le> atol + rtol * |b|\<close>. The two operands have the same
  shape wherever this module calls it on a constructed Pointset; for other shapes (where
  numpy would broadcast or raise) the model raises.
\<close>

definition rtol :: "'a::linordered_field" where
  "rtol = 1 / 100000"

definition atol :: "'a::linordered_field" where
  "atol = 1 / 100000000"

definition isclose :: "('a::linordered_field) \<Rightarrow> 'a \<Rightarrow> bool" where
  "isclose x y \<longleftrightarrow> \<bar>x - y\<bar> \<le> atol + rtol * \<bar>y\<bar>"

definition allclose :: "('a::linordered_field) ndarray \<Rightarrow> 'a ndarray \<Rightarrow> pyerr + bool" where
  "allclose a b =
     (if nrows a \<noteq> nrows b \<or> ncols a \<noteq> ncols b
      then Inl (ValueError ''operands could not be broadcast together'')
      else Inr (list_all (\<lambda>(r, r'). list_all (\<lambda>(x, y). isclose x y) (zip r r'))
                         (zip (rows a) (rows b))))"

text \<open>
  Modelled from the spec: \<open>nibabel.fileslice.strided_scalar\<close> is not part of this module;
  the spec describes its result as a constant-value column, so it is the array of the given
  shape filled with the scalar.
\<close>

definition strided_scalar :: "nat \<times> nat \<Rightarrow> 'a \<Rightarrow> 'a ndarray" where
  "strided_scalar shp scalar =
     \<lparr>nrows = fst shp, ncols = snd shp, rows = replicate (fst shp) (replicate (snd shp) scalar)\<rparr>"

subsection \<open>Arrays of any dimension\<close>

text \<open>An n-dimensional array: its shape and its elements in C (row-major) order.\<close>

record 'a ndarr =
  shape :: "nat list"
  data :: "'a list"

definition ndarr_ok :: "'a ndarr \<Rightarrow> bool" where
  "ndarr_ok v \<longleftrightarrow> length (data v) = prod_list (shape v)"

subsection \<open>GridIndices\<close>

text \<open>
  \<open>__slots__ = ('gridshape', 'dtype', 'shape')\<close>. The \<open>dtype\<close> slot is the element type of
  the array that \<open>__array__\<close> returns; extents are natural numbers.
\<close>

record GridIndices =
  gridshape :: "nat list"
  gshape :: "nat \<times> nat"

definition GridIndices_init :: "nat list \<Rightarrow> GridIndices" where
  "GridIndices_init shp = \<lparr>gridshape = shp, gshape = (prod_list shp, length shp)\<rparr>"

text \<open>\<open>np.arange(s, dtype=dtype)\<close>\<close>

definition arange :: "nat \<Rightarrow> ('a::semiring_1) list" where
  "arange s = map of_nat [0..<s]"

text \<open>
  \<open>np.meshgrid(*axes, copy=False, indexing='ij')\<close>: one array per axis, each of shape
  \<open>(len(axes[0]), ..., len(axes[n-1]))\<close>. numpy reshapes axis \<open>i\<close> to
  \<open>(1, ..., len(axes[i]), ..., 1)\<close> and broadcasts it, so the element of output \<open>i\<close> at the
  C-order position \<open>f\<close> is \<open>axes[i][(f div stride) mod len(axes[i])]\<close>, where \<open>stride\<close> is the
  product of the extents after axis \<open>i\<close>.
\<close>

definition meshgrid_ij :: "'a list list \<Rightarrow> 'a ndarr list" where
  "meshgrid_ij axes =
     (let shp = map length axes
      in map (\<lambda>i. \<lparr>shape = shp,
                    data = map (\<lambda>f. (axes ! i) ! ((f div prod_list (drop (Suc i) shp)) mod (shp ! i)))
                               [0..<prod_list shp]\<rparr>)
             [0..<length axes])"

text \<open>
  \<open>np.reshape(arrays, (len(arrays), -1))\<close> on a list of equally shaped arrays: the list is
  stacked along a new first axis and every array is flattened into one row. With no array
  the known extent is 0, the free extent cannot be inferred and numpy raises ValueError.
\<close>

definition reshape_rows :: "'a ndarr list \<Rightarrow> pyerr + 'a ndarray" where
  "reshape_rows arrays =
     (if length arrays = 0 then Inl (ValueError ''cannot reshape array of size 0 into shape (0,newaxis)'')
      else Inr \<lparr>nrows = length arrays,
                ncols = sum_list (map (\<lambda>v. length (data v)) arrays) div length arrays,
                rows = map data arrays\<rparr>)"

definition GridIndices_array :: "GridIndices \<Rightarrow> pyerr + ('a::semiring_1) ndarray" where
  "GridIndices_array self =
     (let axes = map arange (gridshape self)
      in case reshape_rows (meshgrid_ij axes) of
           Inl e \<Rightarrow> Inl e
         | Inr a \<Rightarrow> Inr (T a))"

subsection \<open>Coordinate arrays and the object store\<close>

text \<open>
  The \<open>CoordinateArray\<close> protocol has two implementations in this module: a dense numpy
  array and a \<open>GridIndices\<close>. A Pointset holds a reference to its coordinate object; the
  store maps references to objects, so that two Pointsets can share one coordinate object.
\<close>

datatype 'a coordinate_array = Dense "'a ndarray" | Lazy GridIndices

type_synonym ref = nat

record 'a heap =
  cells :: "ref \<Rightarrow> 'a coordinate_array"
  next_ref :: ref

definition alloc :: "'a heap \<Rightarrow> 'a coordinate_array \<Rightarrow> ref \<times> 'a heap" where
  "alloc h obj = (next_ref h, h\<lparr>cells := (cells h)(next_ref h := obj), next_ref := Suc (next_ref h)\<rparr>)"

text \<open>\<open>obj.shape\<close>\<close>

fun shape_of :: "'a coordinate_array \<Rightarrow> nat \<times> nat" where
  "shape_of (Dense a) = (nrows a, ncols a)"
| "shape_of (Lazy g) = gshape g"

text \<open>\<open>np.asanyarray(obj)\<close>: a dense array is returned as it is, a \<open>GridIndices\<close> is
  materialised through \<open>__array__\<close>.\<close>

fun asanyarray :: "('a::semiring_1) coordinate_array \<Rightarrow> pyerr + 'a ndarray" where
  "asanyarray (Dense a) = Inr a"
| "asanyarray (Lazy g) = GridIndices_array g"

subsection \<open>Pointset\<close>

record 'a Pointset =
  coordinates :: ref
  affine :: "'a ndarray"
  homogeneous :: bool

text \<open>The property \<open>dim\<close>: \<open>self.coordinates.shape[1] - self.homogeneous\<close>, a Python int.\<close>

definition dim :: "'c heap \<Rightarrow> ('a, 'm) Pointset_scheme \<Rightarrow> int" where
  "dim h self = int (snd (shape_of (cells h (coordinates self)))) - (if homogeneous self then 1 else 0)"

definition n_coords :: "'c heap \<Rightarrow> ('a, 'm) Pointset_scheme \<Rightarrow> nat" where
  "n_coords h self = fst (shape_of (cells h (coordinates self)))"

text \<open>
  \<open>Pointset.__init__\<close>. The affine defaults to \<open>np.eye(self.dim + 1)\<close>. Reading
  \<open>self.affine[-1, ...]\<close> of an array without rows raises IndexError.
\<close>

definition Pointset_init ::
  "'c heap \<Rightarrow> ref \<Rightarrow> ('a::{zero,one}) ndarray option \<Rightarrow> bool \<Rightarrow> pyerr + 'a Pointset" where
  "Pointset_init h coords aff hom =
     (let d = int (snd (shape_of (cells h coords))) - (if hom then 1 else 0);
          self = \<lparr>coordinates = coords,
                  affine = (case aff of None \<Rightarrow> eye (nat (d + 1)) | Some a \<Rightarrow> a),
                  homogeneous = hom\<rparr>
      in if (int (nrows (affine self)), int (ncols (affine self))) \<noteq> (dim h self + 1, dim h self + 1)
         then Inl (ValueError ''Invalid affine for {dim}D coordinates'')
         else if nrows (affine self) = 0
         then Inl (IndexError ''index -1 is out of bounds for axis 0 with size 0'')
         else if list_ex (\<lambda>x. x \<noteq> 0) (butlast (last (rows (affine self))))
                 \<or> last (last (rows (affine self))) \<noteq> 1
         then Inl (ValueError ''Invalid affine matrix'')
         else Inr self)"

text \<open>
  \<open>Pointset.__rmatmul__\<close>: \<open>replace(self, affine=np.asanyarray(affine) @ self.affine)\<close>.
  \<open>dataclasses.replace\<close> calls the class with the fields of \<open>self\<close> and the changed one, so
  \<open>__init__\<close> runs again on the same coordinate reference.
\<close>

definition Pointset_rmatmul ::
  "'c heap \<Rightarrow> ('a::semiring_1) Pointset \<Rightarrow> 'a ndarray \<Rightarrow> pyerr + 'a Pointset" where
  "Pointset_rmatmul h self m =
     (case matmul m (affine self) of
        Inl e \<Rightarrow> Inl e
      | Inr new_affine \<Rightarrow> Pointset_init h (coordinates self) (Some new_affine) (homogeneous self))"

text \<open>\<open>Pointset._homogeneous_coords\<close>\<close>

definition homogeneous_coords ::
  "('a::semiring_1) heap \<Rightarrow> ('a, 'm) Pointset_scheme \<Rightarrow> pyerr + 'a ndarray" where
  "homogeneous_coords h self =
     (if homogeneous self then asanyarray (cells h (coordinates self))
      else let ones = strided_scalar (fst (shape_of (cells h (coordinates self))), 1) 1
           in case asanyarray (cells h (coordinates self)) of
                Inl e \<Rightarrow> Inl e
              | Inr c \<Rightarrow> hstack c ones)"

text \<open>\<open>Pointset.get_coords(*, as_homogeneous=False)\<close>\<close>

definition get_coords ::
  "('a::linordered_field) heap \<Rightarrow> ('a, 'm) Pointset_scheme \<Rightarrow> bool \<Rightarrow> pyerr + 'a ndarray" where
  "get_coords h self as_homogeneous =
     (case allclose (affine self) (eye (nrows (affine self))) of
        Inl e \<Rightarrow> Inl e
      | Inr ident \<Rightarrow>
          if homogeneous self = as_homogeneous \<and> ident
          then asanyarray (cells h (coordinates self))
          else (case homogeneous_coords h self of
                  Inl e \<Rightarrow> Inl e
                | Inr coords \<Rightarrow>
                    (case (if \<not> ident
                           then (case matmul (affine self) (T coords) of
                                   Inl e \<Rightarrow> Inl e | Inr p \<Rightarrow> Inr (T p))
                           else Inr coords) of
                       Inl e \<Rightarrow> Inl e
                     | Inr coords' \<Rightarrow>
                         Inr (if \<not> as_homogeneous then drop_last_column coords' else coords'))))"

subsection \<open>Grid\<close>

text \<open>
  Modelled from the spec: \<open>nibabel.spatialimages.SpatialImage\<close> is not part of this module.
  The spec describes an image object that exposes a dense array (\<open>dataobj\<close>, whose shape is
  the image's \<open>shape\<close>) and an affine, and a constructor that packages an array with an
  affine. Masks are boolean volumes.
\<close>

record 'a SpatialImage =
  dataobj :: "bool ndarr"
  img_affine :: "'a ndarray"

text \<open>\<open>Grid\<close> adds no field to \<open>Pointset\<close>.\<close>

type_synonym 'a Grid = "'a Pointset"

text \<open>The Python slice \<open>xs[:n]\<close>: a negative \<open>n\<close> counts from the end.\<close>

definition py_take :: "int \<Rightarrow> 'a list \<Rightarrow> 'a list" where
  "py_take n xs = (if 0 \<le> n then take (nat n) xs else take (length xs - nat (- n)) xs)"

text \<open>
  \<open>np.nonzero(a)\<close>: one index array per axis, holding the indices of the true elements in
  C order. numpy 2 refuses an array without axes.
\<close>

definition nonzero :: "bool ndarr \<Rightarrow> pyerr + int list list" where
  "nonzero v =
     (if shape v = [] then Inl (ValueError ''Calling nonzero on 0d arrays is not allowed'')
      else let hits = filter (\<lambda>f. data v ! f) [0..<prod_list (shape v)]
           in Inr (map (\<lambda>i. map (\<lambda>f. int ((f div prod_list (drop (Suc i) (shape v))) mod (shape v ! i))) hits)
                       [0..<length (shape v)]))"

text \<open>\<open>np.c_[arrays]\<close> on a non-empty tuple of one-dimensional arrays of one length: the
  arrays become the columns.\<close>

definition np_c :: "'a list list \<Rightarrow> 'a ndarray" where
  "np_c cols = \<lparr>nrows = length (hd cols), ncols = length cols,
              rows = map (\<lambda>j. map (\<lambda>c. c ! j) cols) [0..<length (hd cols)]\<rparr>"

text \<open>
  Modelled from the spec: \<open>nibabel.casting.able_int_type\<close> is not part of this module; the
  spec describes it as the smallest integer type that exactly represents the mask's shape,
  so \<open>astype\<close> to it leaves every index as it is.
\<close>

definition astype_able_int :: "nat list \<Rightarrow> int ndarray \<Rightarrow> int ndarray" where
  "astype_able_int shp a = a"

text \<open>\<open>Grid.from_mask\<close>. The coordinate array is a new object in the store.\<close>

definition Grid_from_mask ::
  "int heap \<Rightarrow> ('a::{zero,one}) SpatialImage \<Rightarrow> pyerr + ('a Grid \<times> int heap)" where
  "Grid_from_mask h img =
     (let mask_arr = dataobj img
      in case nonzero mask_arr of
           Inl e \<Rightarrow> Inl e
         | Inr idx \<Rightarrow>
             (let (r, h') = alloc h (Dense (astype_able_int (shape (dataobj img)) (np_c idx)))
              in case Pointset_init h' r (Some (img_affine img)) False of
                   Inl e \<Rightarrow> Inl e
                 | Inr g \<Rightarrow> Inr (g, h')))"

text \<open>\<open>np.max(a, axis=1)\<close>: the maximum of every row; a reduction over an axis of length 0
  raises.\<close>

definition amax_axis1 :: "int ndarray \<Rightarrow> pyerr + int list" where
  "amax_axis1 a =
     (if ncols a = 0
      then Inl (ValueError ''zero-size array to reduction operation maximum which has no identity'')
      else Inr (map (\<lambda>r. fold max (tl r) (hd r)) (rows a)))"

text \<open>\<open>np.zeros(shape, dtype='bool')\<close>\<close>

definition zeros :: "int list \<Rightarrow> pyerr + bool ndarr" where
  "zeros shp =
     (if list_ex (\<lambda>s. s < 0) shp then Inl (ValueError ''negative dimensions are not allowed'')
      else Inr \<lparr>shape = map nat shp, data = replicate (prod_list (map nat shp)) False\<rparr>)"

text \<open>
  \<open>a[idx] = True\<close> where \<open>idx\<close> is one integer array (given here by its elements): advanced
  indexing on the first axis. Every element of \<open>idx\<close> selects a whole slab \<open>a[i, ...]\<close>;
  a negative \<open>i\<close> counts from the end; an element outside \<open>[-n, n)\<close> raises IndexError, and
  so does any index into an array without axes.
\<close>

definition setitem_true :: "bool ndarr \<Rightarrow> int list \<Rightarrow> pyerr + bool ndarr" where
  "setitem_true a idx =
     (case shape a of
        [] \<Rightarrow> Inl (IndexError ''too many indices for array'')
      | n # rest \<Rightarrow>
          if list_ex (\<lambda>i. i < - int n \<or> int n \<le> i) idx
          then Inl (IndexError ''index is out of bounds for axis 0'')
          else Inr \<lparr>shape = shape a,
                    data = map (\<lambda>f. data a ! f
                                   \<or> int (f div prod_list rest)
                                       \<in> set (map (\<lambda>i. if i < 0 then i + int n else i) idx))
                               [0..<length (data a)]\<rparr>)"

text \<open>\<open>Grid.to_mask(shape=None)\<close>\<close>

definition Grid_to_mask :: "int heap \<Rightarrow> 'a Grid \<Rightarrow> int list option \<Rightarrow> pyerr + 'a SpatialImage" where
  "Grid_to_mask h self shp =
     (case (case shp of
              None \<Rightarrow>
                (case asanyarray (cells h (coordinates self)) of
                   Inl e \<Rightarrow> Inl e
                 | Inr c \<Rightarrow>
                     (case amax_axis1 c of
                        Inl e \<Rightarrow> Inl e
                      | Inr m \<Rightarrow> Inr (py_take (dim h self) m)))
            | Some s \<Rightarrow> Inr s) of
        Inl e \<Rightarrow> Inl e
      | Inr shp' \<Rightarrow>
          (case zeros shp' of
             Inl e \<Rightarrow> Inl e
           | Inr mask_arr \<Rightarrow>
               (case asanyarray (cells h (coordinates self)) of
                  Inl e \<Rightarrow> Inl e
                | Inr c \<Rightarrow>
                    (case setitem_true mask_arr (concat (map (py_take (dim h self)) (rows c))) of
                       Inl e \<Rightarrow> Inl e
                     | Inr mask_arr' \<Rightarrow> Inr \<lparr>dataobj = mask_arr', img_affine = affine self\<rparr>))))"

subsection \<open>Triangular meshes\<close>

text \<open>
  The Python values a mesh constructor can be handed: \<open>None\<close>, an array of the store, a
  tuple, a dict, or an object with named attributes. An attribute that is a method without
  arguments is given by what its call does: it raises, or it returns a tuple. Of these
  values only the store's arrays have a \<open>shape\<close>, and only objects have attributes named
  \<open>coords\<close>, \<open>triangles\<close> or \<open>get_mesh\<close>.
\<close>

datatype pyval =
    NoneV
  | ArrayV ref
  | TupleV "pyval list"
  | DictV "(string \<times> pyval) list"
  | ObjectV "(string \<times> pyval) list"
  | MethodV "pyerr + pyval list"

text \<open>\<open>hasattr(v, name)\<close> and \<open>getattr(v, name)\<close>\<close>

fun hasattr :: "pyval \<Rightarrow> string \<Rightarrow> bool" where
  "hasattr (ObjectV attrs) name = (map_of attrs name \<noteq> None)"
| "hasattr _ name = False"

fun getattr :: "pyval \<Rightarrow> string \<Rightarrow> pyerr + pyval" where
  "getattr (ObjectV attrs) name =
     (case map_of attrs name of
        None \<Rightarrow> Inl (AttributeError name)
      | Some v \<Rightarrow> Inr v)"
| "getattr _ name = Inl (AttributeError name)"

text \<open>\<open>f()\<close>\<close>

fun call0 :: "pyval \<Rightarrow> pyerr + pyval list" where
  "call0 (MethodV res) = res"
| "call0 _ = Inl (TypeError ''object is not callable'')"

text \<open>\<open>a, b = t\<close> for a tuple \<open>t\<close>\<close>

fun unpack2 :: "pyval list \<Rightarrow> pyerr + (pyval \<times> pyval)" where
  "unpack2 [a, b] = Inr (a, b)"
| "unpack2 [] = Inl (ValueError ''not enough values to unpack (expected 2, got 0)'')"
| "unpack2 [a] = Inl (ValueError ''not enough values to unpack (expected 2, got 1)'')"
| "unpack2 _ = Inl (ValueError ''too many values to unpack (expected 2)'')"

text \<open>\<open>isinstance(mesh, tuple) and len(mesh) == 2\<close>\<close>

fun is_tuple2 :: "pyval \<Rightarrow> bool" where
  "is_tuple2 (TupleV xs) = (length xs = 2)"
| "is_tuple2 _ = False"

fun tuple_items :: "pyval \<Rightarrow> pyval list" where
  "tuple_items (TupleV xs) = xs"
| "tuple_items _ = []"

record 'a TriangularMesh = "'a Pointset" +
  triangles :: pyval

text \<open>
  \<open>TriangularMesh.__init__(mesh)\<close>. The three branches are tried in the order of the source;
  \<open>super().__init__(coords)\<close> reads \<open>coords.shape\<close>, which only an array has.
\<close>

definition TriangularMesh_init :: "'c heap \<Rightarrow> pyval \<Rightarrow> pyerr + ('a::{zero,one}) TriangularMesh" where
  "TriangularMesh_init h mesh =
     (case (if is_tuple2 mesh then unpack2 (tuple_items mesh)
            else if hasattr mesh ''coords'' \<and> hasattr mesh ''triangles''
            then (case getattr mesh ''coords'' of
                    Inl e \<Rightarrow> Inl e
                  | Inr c \<Rightarrow>
                      (case getattr mesh ''triangles'' of
                         Inl e \<Rightarrow> Inl e
                       | Inr t \<Rightarrow> Inr (c, t)))
            else if hasattr mesh ''get_mesh''
            then (case getattr mesh ''get_mesh'' of
                    Inl e \<Rightarrow> Inl e
                  | Inr f \<Rightarrow>
                      (case call0 f of
                         Inl e \<Rightarrow> Inl e
                       | Inr res \<Rightarrow> unpack2 res))
            else Inl (ValueError ''Cannot interpret input as triangular mesh'')) of
        Inl e \<Rightarrow> Inl e
      | Inr (coords, t) \<Rightarrow>
          (case coords of
             ArrayV r \<Rightarrow>
               (case Pointset_init h r None False of
                  Inl e \<Rightarrow> Inl e
                | Inr p \<Rightarrow>
                    Inr \<lparr>coordinates = coordinates p, affine = affine p,
                         homogeneous = homogeneous p, triangles = t\<rparr>)
           | _ \<Rightarrow> Inl (AttributeError ''shape'')))"

text \<open>\<open>TriangularMesh.get_triangles()\<close>\<close>

definition get_triangles :: "('a, 'm) TriangularMesh_scheme \<Rightarrow> pyval" where
  "get_triangles self = triangles self"

text \<open>
  A call \<open>self.get_coords(...)\<close> on a \<open>Pointset\<close> or \<open>TriangularMesh\<close> with keyword arguments:
  \<open>as_homogeneous\<close> if it is given, and the other keywords of the call. The signature
  \<open>get_coords(self, *, as_homogeneous=False)\<close> has no \<open>**kwargs\<close>, so any other keyword is a
  TypeError raised before the body runs.
\<close>

definition get_coords_kw ::
  "('a::linordered_field) heap \<Rightarrow> ('a, 'm) Pointset_scheme \<Rightarrow> bool option \<Rightarrow> (string \<times> pyval) list
     \<Rightarrow> pyerr + 'a ndarray" where
  "get_coords_kw h self as_homogeneous kwargs =
     (case kwargs of
        (k, v) # _ \<Rightarrow> Inl (TypeError (''get_coords() got an unexpected keyword argument '' @ k))
      | [] \<Rightarrow> get_coords h self (case as_homogeneous of None \<Rightarrow> False | Some b \<Rightarrow> b))"

text \<open>\<open>TriangularMesh.get_mesh(name=None)\<close>: \<open>return self.get_coords(name=name), self.get_triangles()\<close>\<close>

definition get_mesh ::
  "('a::linordered_field) heap \<Rightarrow> ('a, 'm) TriangularMesh_scheme \<Rightarrow> pyval \<Rightarrow> pyerr + ('a ndarray \<times> pyval)" where
  "get_mesh h self name =
     (case get_coords_kw h self None [(''name'', name)] of
        Inl e \<Rightarrow> Inl e
      | Inr c \<Rightarrow> Inr (c, get_triangles self))"

subsection \<open>Families of meshes\<close>

text \<open>A dict keeps its keys in insertion order; assigning to a key that is present keeps
  its place.\<close>

fun dict_set :: "'k \<Rightarrow> 'v \<Rightarrow> ('k \<times> 'v) list \<Rightarrow> ('k \<times> 'v) list" where
  "dict_set k v [] = [(k, v)]"
| "dict_set k v ((k', v') # d) = (if k' = k then (k, v) # d else (k', v') # dict_set k v d)"

text \<open>\<open>dict(mapping)\<close> of a dict or of a sequence of pairs\<close>

definition py_dict :: "('k \<times> 'v) list \<Rightarrow> ('k \<times> 'v) list" where
  "py_dict pairs = foldl (\<lambda>d (k, v). dict_set k v d) [] pairs"

record 'a TriMeshFamily =
  family_triangles :: pyval
  family_coords :: "(string \<times> 'a ndarray) list"
  family_default :: string

text \<open>The loop of \<open>TriMeshFamily.__init__\<close> over the items of \<open>dict(mapping)\<close>, on the pair of
  \<open>self._triangles\<close> and \<open>self._coords\<close>.\<close>

fun TriMeshFamily_load ::
  "('a::linordered_field) heap \<Rightarrow> (string \<times> pyval) list \<Rightarrow> pyval \<times> (string \<times> 'a ndarray) list
     \<Rightarrow> pyerr + (pyval \<times> (string \<times> 'a ndarray) list)" where
  "TriMeshFamily_load h [] st = Inr st"
| "TriMeshFamily_load h ((name, mesh) # items) (tri, coords) =
     (case TriangularMesh_init h mesh of
        Inl e \<Rightarrow> Inl e
      | Inr (m :: 'a TriangularMesh) \<Rightarrow>
          (case get_mesh h m NoneV of
             Inl e \<Rightarrow> Inl e
           | Inr (c, t) \<Rightarrow>
               TriMeshFamily_load h items
                 (if tri = NoneV then t else tri, dict_set name c coords)))"

text \<open>\<open>TriMeshFamily.__init__(mapping, default=None)\<close>; \<open>next(iter(d))\<close> of an empty dict
  raises StopIteration.\<close>

definition TriMeshFamily_init ::
  "('a::linordered_field) heap \<Rightarrow> (string \<times> pyval) list \<Rightarrow> string option \<Rightarrow> pyerr + 'a TriMeshFamily" where
  "TriMeshFamily_init h mapping dflt =
     (case TriMeshFamily_load h (py_dict mapping) (NoneV, []) of
        Inl e \<Rightarrow> Inl e
      | Inr (tri, coords) \<Rightarrow>
          (case dflt of
             Some d \<Rightarrow> Inr \<lparr>family_triangles = tri, family_coords = coords, family_default = d\<rparr>
           | None \<Rightarrow>
               (case coords of
                  [] \<Rightarrow> Inl StopIteration
                | (k, c) # _ \<Rightarrow>
                    Inr \<lparr>family_triangles = tri, family_coords = coords, family_default = k\<rparr>)))"

text \<open>\<open>TriMeshFamily.get_names()\<close>\<close>

definition get_names :: "'a TriMeshFamily \<Rightarrow> string list" where
  "get_names self = map fst (family_coords self)"

text \<open>\<open>TriMeshFamily.get_coords(name=None)\<close>\<close>

definition TriMeshFamily_get_coords :: "'a TriMeshFamily \<Rightarrow> string option \<Rightarrow> pyerr + 'a ndarray" where
  "TriMeshFamily_get_coords self name =
     (let name' = (case name of None \<Rightarrow> family_default self | Some n \<Rightarrow> n)
      in case map_of (family_coords self) name' of
           None \<Rightarrow> Inl (KeyError name')
         | Some c \<Rightarrow> Inr c)"

subsection \<open>Reference definitions in the words of the specification\<close>

text \<open>
  The tuples over the per-axis ranges \<open>[0, extent)\<close> in row-major order: the first axis
  varies slowest.
\<close>

fun row_major_tuples :: "nat list \<Rightarrow> nat list list" where
  "row_major_tuples [] = [[]]"
| "row_major_tuples (s # ss) = concat (map (\<lambda>i. map ((#) i) (row_major_tuples ss)) [0..<s])"

text \<open>
  The last row of a homogeneous affine of size \<open>n\<close>: \<open>[0, ..., 0, 1]\<close>.
\<close>

definition unit_row :: "nat \<Rightarrow> ('a::{zero,one}) list" where
  "unit_row n = replicate (n - 1) 0 @ [1]"

text \<open>A well-formed affine of size \<open>n\<close>: an \<open>n\<close> by \<open>n\<close> matrix with that last row.\<close>

definition affine_ok :: "nat \<Rightarrow> ('a::{zero,one}) ndarray \<Rightarrow> bool" where
  "affine_ok n m \<longleftrightarrow>
     ndarray_ok m \<and> 0 < n \<and> nrows m = n \<and> ncols m = n \<and> last (rows m) = unit_row n"

text \<open>
  A coordinate object honours the \<open>CoordinateArray\<close> protocol when its conversion to a
  dense array succeeds and gives an array of the shape the object declares.
\<close>

definition coords_ok :: "('a::semiring_1) coordinate_array \<Rightarrow> bool" where
  "coords_ok obj =
     (case asanyarray obj of
        Inl e \<Rightarrow> False
      | Inr a \<Rightarrow> ndarray_ok a \<and> (nrows a, ncols a) = shape_of obj)"

text \<open>
  The contract of \<open>get_coords\<close> as the specification words it: append a column of ones
  unless the coordinates are homogeneous already, multiply by the affine unless the
  identity check holds, drop the last column for Cartesian output.
\<close>

definition append_ones :: "('a::one) ndarray \<Rightarrow> 'a ndarray" where
  "append_ones c = \<lparr>nrows = nrows c, ncols = ncols c + 1, rows = map (\<lambda>r. r @ [1]) (rows c)\<rparr>"

definition is_identity :: "('a::linordered_field) ndarray \<Rightarrow> bool" where
  "is_identity a \<longleftrightarrow>
     list_all (\<lambda>i. list_all (\<lambda>j. isclose (rows a ! i ! j) (if i = j then 1 else 0)) [0..<nrows a])
              [0..<nrows a]"

definition get_coords_spec ::
  "('a::linordered_field) ndarray \<Rightarrow> 'a ndarray \<Rightarrow> bool \<Rightarrow> bool \<Rightarrow> 'a ndarray" where
  "get_coords_spec c a hom as_homogeneous =
     (let hc = (if hom then c else append_ones c);
          tc = (if is_identity a then hc else T (matrix_product a (T hc)))
      in if as_homogeneous then tc else drop_last_column tc)"

section \<open>Properties\<close>

subsection \<open>Construction and the fast path of \<open>get_coords\<close>\<close>

lemma unit_row_iff:
  assumes "length r = Suc n"
  shows "(list_ex (\<lambda>x. x \<noteq> 0) (butlast r) \<or> last r \<noteq> 1) \<longleftrightarrow> r \<noteq> replicate n 0 @ [1]"
proof -
  from assms have ne: "r \<noteq> []" by auto
  then have r: "r = butlast r @ [last r]" by simp
  have len: "length (butlast r) = n" using assms by simp
  have "butlast r = replicate n 0 \<longleftrightarrow> (\<forall>x\<in>set (butlast r). x = 0)"
    using len by (metis in_set_replicate replicate_length_same)
  moreover have "r = replicate n 0 @ [1] \<longleftrightarrow> butlast r = replicate n 0 \<and> last r = 1"
    using r by (metis append1_eq_conv)
  ultimately show ?thesis by (auto simp: list_ex_iff)
qed

lemma ndarray_ok_last_row:
  "ndarray_ok a \<Longrightarrow> 0 < nrows a \<Longrightarrow> length (last (rows a)) = ncols a"
  by (cases "rows a" rule: rev_cases) (auto simp: ndarray_ok_def list_all_iff)

text \<open>
  Claim C8. Constructing a Pointset with an affine whose shape is not
  \<open>(dim + 1, dim + 1)\<close> raises the ValueError of the shape check; with an affine of the
  right shape whose last row is not \<open>[0, ..., 0, 1]\<close> (compared exactly) it raises the
  ValueError of the last-row check. Either way the constructor returns no object.
\<close>

theorem Pointset_init_invalid_affine:
  fixes a :: "('a::{zero,one}) ndarray"
  assumes "ndarray_ok a"
  shows "((int (nrows a), int (ncols a)) \<noteq>
            (dim h \<lparr>coordinates = c, affine = a, homogeneous = hom\<rparr> + 1,
             dim h \<lparr>coordinates = c, affine = a, homogeneous = hom\<rparr> + 1)
          \<longrightarrow> Pointset_init h c (Some a) hom = Inl (ValueError ''Invalid affine for {dim}D coordinates''))
       \<and> ((int (nrows a), int (ncols a)) =
            (dim h \<lparr>coordinates = c, affine = a, homogeneous = hom\<rparr> + 1,
             dim h \<lparr>coordinates = c, affine = a, homogeneous = hom\<rparr> + 1)
          \<and> 0 < nrows a \<and> last (rows a) \<noteq> replicate (nrows a - 1) 0 @ [1]
          \<longrightarrow> Pointset_init h c (Some a) hom = Inl (ValueError ''Invalid affine matrix''))"
proof (intro conjI impI)
  assume "(int (nrows a), int (ncols a)) \<noteq>
            (dim h \<lparr>coordinates = c, affine = a, homogeneous = hom\<rparr> + 1,
             dim h \<lparr>coordinates = c, affine = a, homogeneous = hom\<rparr> + 1)"
  then show "Pointset_init h c (Some a) hom = Inl (ValueError ''Invalid affine for {dim}D coordinates'')"
    by (simp add: Pointset_init_def Let_def dim_def)
next
  assume h: "(int (nrows a), int (ncols a)) =
            (dim h \<lparr>coordinates = c, affine = a, homogeneous = hom\<rparr> + 1,
             dim h \<lparr>coordinates = c, affine = a, homogeneous = hom\<rparr> + 1)
          \<and> 0 < nrows a \<and> last (rows a) \<noteq> replicate (nrows a - 1) 0 @ [1]"
  then have sq: "ncols a = nrows a" by auto
  from h have pos: "0 < nrows a" by simp
  have "length (last (rows a)) = Suc (nrows a - 1)"
    using ndarray_ok_last_row[OF assms pos] sq pos by simp
  from unit_row_iff[OF this] h
  have bad: "list_ex (\<lambda>x. x \<noteq> 0) (butlast (last (rows a))) \<or> last (last (rows a)) \<noteq> 1"
    by simp
  from h pos bad show "Pointset_init h c (Some a) hom = Inl (ValueError ''Invalid affine matrix'')"
    by (simp add: Pointset_init_def Let_def dim_def)
qed

theorem Pointset_init_invalid_affine_witness:
  "Pointset_init \<lparr>cells = (\<lambda>_. Dense \<lparr>nrows = 1, ncols = 2, rows = [[5, 7 :: rat]]\<rparr>), next_ref = 1\<rparr> 0
      (Some \<lparr>nrows = 2, ncols = 2, rows = [[1, 0], [0, 1 :: rat]]\<rparr>) False
     = Inl (ValueError ''Invalid affine for {dim}D coordinates'')
   \<and> Pointset_init \<lparr>cells = (\<lambda>_. Dense \<lparr>nrows = 1, ncols = 2, rows = [[5, 7 :: rat]]\<rparr>), next_ref = 1\<rparr> 0
      (Some \<lparr>nrows = 3, ncols = 3, rows = [[1, 0, 0], [0, 1, 0], [0, 0, 2 :: rat]]\<rparr>) False
     = Inl (ValueError ''Invalid affine matrix'')"
proof -
  have ok2: "ndarray_ok \<lparr>nrows = 2, ncols = 2, rows = [[1, 0], [0, 1 :: rat]]\<rparr>"
    by (simp add: ndarray_ok_def)
  have ok3: "ndarray_ok \<lparr>nrows = 3, ncols = 3, rows = [[1, 0, 0], [0, 1, 0], [0, 0, 2 :: rat]]\<rparr>"
    by (simp add: ndarray_ok_def)
  show ?thesis
    using Pointset_init_invalid_affine[OF ok2,
            of "\<lparr>cells = (\<lambda>_. Dense \<lparr>nrows = 1, ncols = 2, rows = [[5, 7 :: rat]]\<rparr>), next_ref = 1\<rparr>" 0 False]
          Pointset_init_invalid_affine[OF ok3,
            of "\<lparr>cells = (\<lambda>_. Dense \<lparr>nrows = 1, ncols = 2, rows = [[5, 7 :: rat]]\<rparr>), next_ref = 1\<rparr>" 0 False]
    by (simp add: dim_def numeral_3_eq_3)
qed

text \<open>
  Claim C6. When \<open>np.allclose\<close> finds the affine to be the identity (within the default
  tolerances, not exactly) and the stored homogeneous flag equals the requested one,
  \<open>get_coords\<close> returns \<open>np.asanyarray(self.coordinates)\<close>: for a dense coordinate
  array, that array itself, with no product and no column added or removed.
\<close>

theorem get_coords_identity_fast_path:
  assumes "allclose (affine P) (eye (nrows (affine P))) = Inr True"
    and "homogeneous P = b"
  shows "get_coords h P b = asanyarray (cells h (coordinates P))
       \<and> (\<forall>c. cells h (coordinates P) = Dense c \<longrightarrow> get_coords h P b = Inr c)"
  using assms by (simp add: get_coords_def)

theorem get_coords_identity_fast_path_witness:
  "get_coords \<lparr>cells = (\<lambda>_. Dense \<lparr>nrows = 1, ncols = 2, rows = [[5, 7 :: rat]]\<rparr>), next_ref = 1\<rparr>
      \<lparr>coordinates = 0,
       affine = \<lparr>nrows = 3, ncols = 3, rows = [[1 + 1 / 1000000, 0, 0], [0, 1, 0], [0, 0, 1 :: rat]]\<rparr>,
       homogeneous = False\<rparr> False
   = Inr \<lparr>nrows = 1, ncols = 2, rows = [[5, 7]]\<rparr>"
proof -
  have close: "allclose (affine \<lparr>coordinates = 0,
       affine = \<lparr>nrows = 3, ncols = 3, rows = [[1 + 1 / 1000000, 0, 0], [0, 1, 0], [0, 0, 1 :: rat]]\<rparr>,
       homogeneous = False\<rparr>) (eye (nrows (affine \<lparr>coordinates = 0,
       affine = \<lparr>nrows = 3, ncols = 3, rows = [[1 + 1 / 1000000, 0, 0], [0, 1, 0], [0, 0, 1 :: rat]]\<rparr>,
       homogeneous = False\<rparr>))) = Inr True"
    by (simp add: allclose_def eye_def isclose_def atol_def rtol_def numeral_3_eq_3)
  show ?thesis
    using get_coords_identity_fast_path[OF close, of False
        "\<lparr>cells = (\<lambda>_. Dense \<lparr>nrows = 1, ncols = 2, rows = [[5, 7 :: rat]]\<rparr>), next_ref = 1\<rparr>"]
    by simp
qed

subsection \<open>Materialising \<open>GridIndices\<close>\<close>


lemma length_concat_map_upt:
  "(\<forall>i<s. length (g i) = p) \<Longrightarrow> length (concat (map g [0..<s])) = s * p"
  by (induction s) auto

lemma nth_concat_map_upt:
  assumes "\<forall>i<s. length (g i) = p" and "f < s * p"
  shows "concat (map g [0..<s]) ! f = g (f div p) ! (f mod p)"
  using assms
proof (induction s)
  case 0
  then show ?case by simp
next
  case (Suc s)
  have len: "length (concat (map g [0..<s])) = s * p"
    using Suc.prems(1) by (simp add: length_concat_map_upt)
  show ?case
  proof (cases "f < s * p")
    case True
    with Suc len show ?thesis by (simp add: nth_append)
  next
    case False
    then have ge: "s * p \<le> f" by simp
    from Suc.prems(2) have lt: "f - s * p < p" using ge by simp
    have "f = s * p + (f - s * p)" using ge by simp
    then have d: "f div p = s" and m: "f mod p = f - s * p"
      using lt by (metis div_mult_self3 div_less add.right_neutral less_nat_zero_code mult_zero_right not_gr_zero,
                   metis mod_less mod_mult_self3)
    show ?thesis using False len d m by (simp add: nth_append)
  qed
qed

lemma length_row_major_tuples: "length (row_major_tuples sh) = prod_list sh"
  by (induction sh) (simp_all add: length_concat_map_upt)

lemma stride_mod:
  fixes f :: nat
  shows "(f mod (a * (e * d))) div d mod e = f div d mod e"
proof (cases "d = 0")
  case True
  then show ?thesis by simp
next
  case False
  have "f mod (d * (e * a)) = d * (f div d mod (e * a)) + f mod d"
    by (rule mod_mult2_eq)
  then have s1: "f mod (d * (e * a)) div d = f div d mod (e * a)"
    using False by simp
  have s2: "f div d mod (e * a) mod e = f div d mod e"
    by (simp add: mod_mod_cancel)
  have eq: "a * (e * d) = d * (e * a)" by simp
  show ?thesis unfolding eq s1 s2 ..
qed

lemma prod_list_split: "i < length ss \<Longrightarrow> prod_list ss = prod_list (take i ss) * (ss ! i * prod_list (drop (Suc i) ss))"
  by (metis Cons_nth_drop_Suc append_take_drop_id prod_list.Cons prod_list.append)

lemma nth_row_major_tuples:
  "f < prod_list sh \<Longrightarrow>
   row_major_tuples sh ! f = map (\<lambda>i. (f div prod_list (drop (Suc i) sh)) mod (sh ! i)) [0..<length sh]"
proof (induction sh arbitrary: f)
  case Nil
  then show ?case by simp
next
  case (Cons s ss)
  let ?p = "prod_list ss"
  from Cons.prems have f: "f < s * ?p" by simp
  then have ppos: "0 < ?p" by (cases "?p = 0") auto
  have fd: "f div ?p < s" using f ppos by (simp add: less_mult_imp_div_less)
  have fm: "f mod ?p < ?p" using ppos by simp
  have "row_major_tuples (s # ss) ! f = (f div ?p) # (row_major_tuples ss ! (f mod ?p))"
    using nth_concat_map_upt[where g = "\<lambda>i. map ((#) i) (row_major_tuples ss)" and p = ?p and s = s and f = f]
      f fd fm by (simp add: length_row_major_tuples)
  also have "row_major_tuples ss ! (f mod ?p)
      = map (\<lambda>i. ((f mod ?p) div prod_list (drop (Suc i) ss)) mod (ss ! i)) [0..<length ss]"
    using Cons.IH[OF fm] .
  also have "\<dots> = map (\<lambda>i. (f div prod_list (drop (Suc i) ss)) mod (ss ! i)) [0..<length ss]"
  proof (rule map_cong[OF refl])
    fix i assume "i \<in> set [0..<length ss]"
    then have i: "i < length ss" by simp
    show "((f mod ?p) div prod_list (drop (Suc i) ss)) mod (ss ! i)
        = (f div prod_list (drop (Suc i) ss)) mod (ss ! i)"
      using stride_mod[of f "prod_list (take i ss)" "ss ! i" "prod_list (drop (Suc i) ss)"]
      by (simp add: prod_list_split[OF i])
  qed
  finally have lhs: "row_major_tuples (s # ss) ! f
      = (f div ?p) # map (\<lambda>i. (f div prod_list (drop (Suc i) ss)) mod (ss ! i)) [0..<length ss]" .
  have "map (\<lambda>i. (f div prod_list (drop (Suc i) (s # ss))) mod ((s # ss) ! i)) [0..<length (s # ss)]
      = (f div ?p) mod s # map (\<lambda>i. (f div prod_list (drop (Suc i) ss)) mod (ss ! i)) [0..<length ss]"
    by (simp add: upt_conv_Cons map_Suc_upt[symmetric] del: upt_Suc)
  with lhs fd show ?case by simp
qed


lemma meshgrid_ij_arange:
  "meshgrid_ij (map arange sh) =
     map (\<lambda>i. \<lparr>shape = sh,
                 data = map (\<lambda>f. (arange (sh ! i) :: ('a::semiring_1) list) ! ((f div prod_list (drop (Suc i) sh)) mod (sh ! i)))
                            [0..<prod_list sh]\<rparr>)
         [0..<length sh]"
proof -
  have shp: "map length (map (arange :: nat \<Rightarrow> 'a list) sh) = sh"
    by (simp add: arange_def comp_def)
  show ?thesis
    unfolding meshgrid_ij_def Let_def shp by simp
qed

lemma GridIndices_array_row_major:
  assumes "gridshape g \<noteq> []"
  shows "(GridIndices_array g :: pyerr + ('a::semiring_1) ndarray) =
           Inr \<lparr>nrows = prod_list (gridshape g), ncols = length (gridshape g),
                rows = map (map of_nat) (row_major_tuples (gridshape g))\<rparr>"
proof -
  let ?sh = "gridshape g"
  let ?n = "length ?sh"
  let ?p = "prod_list ?sh"
  let ?cell = "\<lambda>i f. (arange (?sh ! i) :: 'a list) ! ((f div prod_list (drop (Suc i) ?sh)) mod (?sh ! i))"
  from assms have npos: "0 < ?n" by simp
  have cols: "sum_list (map (\<lambda>v. length (data v)) (meshgrid_ij (map (arange :: nat \<Rightarrow> 'a list) ?sh))) div ?n = ?p"
    using npos by (simp add: meshgrid_ij_arange comp_def sum_list_triv)
  have rws: "map (\<lambda>j. map (\<lambda>r. r ! j) (map data (meshgrid_ij (map (arange :: nat \<Rightarrow> 'a list) ?sh)))) [0..<?p]
           = map (map of_nat) (row_major_tuples ?sh)"
  proof (rule nth_equalityI)
    show "length (map (\<lambda>j. map (\<lambda>r. r ! j) (map data (meshgrid_ij (map (arange :: nat \<Rightarrow> 'a list) ?sh)))) [0..<?p])
        = length (map (map of_nat) (row_major_tuples ?sh) :: 'a list list)"
      by (simp add: length_row_major_tuples)
  next
    fix j
    assume "j < length (map (\<lambda>j. map (\<lambda>r. r ! j) (map data (meshgrid_ij (map (arange :: nat \<Rightarrow> 'a list) ?sh)))) [0..<?p])"
    then have j: "j < ?p" by simp
    have pos: "0 < ?sh ! i" if "i < ?n" for i
    proof (rule ccontr)
      assume "\<not> 0 < ?sh ! i"
      then have "?sh ! i = 0" by simp
      then have "0 \<in> set ?sh" using that by (metis nth_mem)
      then have "?p = 0" by (simp add: prod_list_zero_iff)
      with j show False by simp
    qed
    have cell: "?cell i j = of_nat ((j div prod_list (drop (Suc i) ?sh)) mod (?sh ! i))" if "i < ?n" for i
      using pos[OF that] by (simp add: arange_def)
    have "map (\<lambda>r. r ! j) (map data (meshgrid_ij (map (arange :: nat \<Rightarrow> 'a list) ?sh)))
        = map (\<lambda>i. ?cell i j) [0..<?n]"
      using j by (simp add: meshgrid_ij_arange comp_def)
    also have "\<dots> = map (\<lambda>i. of_nat ((j div prod_list (drop (Suc i) ?sh)) mod (?sh ! i))) [0..<?n]"
      by (rule map_cong[OF refl]) (simp add: cell)
    also have "\<dots> = map of_nat (row_major_tuples ?sh ! j)"
      by (simp add: nth_row_major_tuples[OF j] comp_def)
    finally show "map (\<lambda>j. map (\<lambda>r. r ! j) (map data (meshgrid_ij (map (arange :: nat \<Rightarrow> 'a list) ?sh)))) [0..<?p] ! j
        = (map (map of_nat) (row_major_tuples ?sh) :: 'a list list) ! j"
      using j by (simp add: length_row_major_tuples)
  qed
  have len: "length (meshgrid_ij (map (arange :: nat \<Rightarrow> 'a list) ?sh)) = ?n"
    by (simp add: meshgrid_ij_def Let_def)
  have ne: "meshgrid_ij (map (arange :: nat \<Rightarrow> 'a list) ?sh) \<noteq> []"
    using len npos by (metis length_greater_0_conv)
  show ?thesis
    by (simp add: GridIndices_array_def reshape_rows_def T_def Let_def ne len cols rws
             del: upt_Suc map_map)
qed

text \<open>
  Claim C7 (amended). For every grid shape with at least one axis, \<open>__array__\<close> returns
  the array of shape (product of the extents, number of axes) whose row \<open>i\<close> is the
  \<open>i\<close>-th tuple in row-major order over the ranges \<open>[0, extent)\<close>. The result depends on
  the grid shape and the element type only: the model has no state to cache in.
\<close>

theorem GridIndices_array_materialises:
  assumes "gridshape g \<noteq> []"
  shows "(GridIndices_array g :: pyerr + ('a::semiring_1) ndarray) =
           Inr \<lparr>nrows = prod_list (gridshape g), ncols = length (gridshape g),
                rows = map (map of_nat) (row_major_tuples (gridshape g))\<rparr>"
  using assms by (rule GridIndices_array_row_major)

text \<open>The grid of shape \<open>(2, 3)\<close>.\<close>

theorem GridIndices_array_materialises_witness:
  "(GridIndices_array (GridIndices_init [2, 3]) :: pyerr + int ndarray) =
     Inr \<lparr>nrows = 6, ncols = 2, rows = [[0, 0], [0, 1], [0, 2], [1, 0], [1, 1], [1, 2]]\<rparr>"
proof -
  have ne: "gridshape (GridIndices_init [2, 3]) \<noteq> []" by (simp add: GridIndices_init_def)
  have up: "[0..<2] = [0, 1]" "[0..<3] = [0, 1, 2]" by (simp_all add: upt_rec)
  show ?thesis
    using GridIndices_array_materialises[OF ne, where 'a = int]
    by (simp add: GridIndices_init_def up)
qed

text \<open>
  Claim C7 as stated, for every grid shape, fails for the shape without axes: the object
  declares the shape \<open>(1, 0)\<close>, and \<open>__array__\<close> raises, because \<open>np.reshape\<close> cannot infer
  the free extent next to a known extent of 0.
\<close>

theorem GridIndices_array_no_axes_counterexample:
  "gshape (GridIndices_init []) = (1, 0)
   \<and> (GridIndices_array (GridIndices_init []) :: pyerr + int ndarray)
       = Inl (ValueError ''cannot reshape array of size 0 into shape (0,newaxis)'')"
  by (simp add: GridIndices_array_def GridIndices_init_def reshape_rows_def meshgrid_ij_def)

subsection \<open>Matrix products of affines\<close>


lemma nth_unit_row: "0 < n \<Longrightarrow> k < n \<Longrightarrow> (unit_row n :: ('a::{zero,one}) list) ! k = (if k = n - 1 then 1 else 0)"
  by (auto simp: unit_row_def nth_append)

lemma length_unit_row [simp]: "0 < n \<Longrightarrow> length (unit_row n) = n"
  by (simp add: unit_row_def)

lemma ndarray_ok_row: "ndarray_ok a \<Longrightarrow> i < nrows a \<Longrightarrow> length (rows a ! i) = ncols a"
  by (simp add: ndarray_ok_def list_all_length)


lemma ndarray_ok_T: "ndarray_ok a \<Longrightarrow> ndarray_ok (T a)"
  by (simp add: ndarray_ok_def T_def list_all_iff)

lemma ndarray_ok_eye: "ndarray_ok (eye n)"
  by (simp add: ndarray_ok_def eye_def list_all_iff)






subsection \<open>What the constructor establishes\<close>

lemma unit_row_check:
  assumes "length r = n" and "0 < n"
  shows "(list_ex (\<lambda>x. x \<noteq> 0) (butlast r) \<or> last r \<noteq> 1) \<longleftrightarrow> r \<noteq> unit_row n"
  using unit_row_iff[of r "n - 1"] assms by (simp add: unit_row_def)

lemma Pointset_init_InrD:
  assumes init: "Pointset_init h c aff hom = Inr P" and ok: "ndarray_ok (affine P)"
  shows "coordinates P = c" and "homogeneous P = hom" and "0 \<le> dim h P"
    and "affine_ok (nat (dim h P + 1)) (affine P)"
proof -
  let ?d = "int (snd (shape_of (cells h c))) - (if hom then 1 else 0)"
  let ?self = "\<lparr>coordinates = c, affine = (case aff of None \<Rightarrow> eye (nat (?d + 1)) | Some a \<Rightarrow> a),
                 homogeneous = hom\<rparr>"
  from init have P: "P = ?self"
    and shp: "(int (nrows (affine ?self)), int (ncols (affine ?self))) = (dim h ?self + 1, dim h ?self + 1)"
    and pos: "nrows (affine ?self) \<noteq> 0"
    and row: "\<not> (list_ex (\<lambda>x. x \<noteq> 0) (butlast (last (rows (affine ?self))))
                \<or> last (last (rows (affine ?self))) \<noteq> 1)"
    by (auto simp: Pointset_init_def Let_def split: if_splits)
  show c: "coordinates P = c" and hm: "homogeneous P = hom" by (simp_all add: P)
  from shp P have n: "int (nrows (affine P)) = dim h P + 1" and sq: "ncols (affine P) = nrows (affine P)"
    by (simp_all add: dim_def)
  from pos P have p: "0 < nrows (affine P)" by simp
  from n p show "0 \<le> dim h P" by linarith
  have len: "length (last (rows (affine P))) = nrows (affine P)"
    using ndarray_ok_last_row[OF ok p] sq by simp
  from row P have "\<not> (list_ex (\<lambda>x. x \<noteq> 0) (butlast (last (rows (affine P))))
                \<or> last (last (rows (affine P))) \<noteq> 1)" by simp
  with unit_row_check[OF len p] have "last (rows (affine P)) = unit_row (nrows (affine P))" by blast
  moreover have "nat (dim h P + 1) = nrows (affine P)" using n by linarith
  ultimately show "affine_ok (nat (dim h P + 1)) (affine P)"
    using ok p sq by (simp add: affine_ok_def)
qed

lemma Pointset_init_Some:
  fixes a :: "('a::{zero,one}) ndarray"
  assumes d: "d = int (snd (shape_of (cells h c))) - (if hom then 1 else 0)"
    and a: "affine_ok (nat (d + 1)) a"
  shows "Pointset_init h c (Some a) hom = Inr \<lparr>coordinates = c, affine = a, homogeneous = hom\<rparr>"
proof -
  from a have ok: "ndarray_ok a" and p: "0 < nat (d + 1)" and nr: "nrows a = nat (d + 1)"
    and nc: "ncols a = nat (d + 1)" and row: "last (rows a) = unit_row (nat (d + 1))"
    by (simp_all add: affine_ok_def)
  have len: "length (last (rows a)) = nat (d + 1)"
    using ndarray_ok_last_row[OF ok] p nr nc by simp
  have good: "\<not> (list_ex (\<lambda>x. x \<noteq> 0) (butlast (last (rows a))) \<or> last (last (rows a)) \<noteq> 1)"
    using unit_row_check[OF len p] row by simp
  from p have "0 \<le> d" by linarith
  then show ?thesis
    using good p nr nc d by (simp add: Pointset_init_def Let_def dim_def)
qed


subsection \<open>\<open>get_coords\<close> against its contract\<close>

lemma allclose_eye:
  fixes a :: "('a::linordered_field) ndarray"
  assumes ok: "ndarray_ok a" and sq: "ncols a = nrows a"
  shows "allclose a (eye (nrows a)) = Inr (is_identity a)"
proof -
  let ?n = "nrows a"
  have len: "length (rows a) = ?n" using ok by (simp add: ndarray_ok_def)
  have rowlen: "length (rows a ! i) = ?n" if "i < ?n" for i
    using ndarray_ok_row[OF ok that] sq by simp
  have "list_all (\<lambda>(r, r'). list_all (\<lambda>(x, y). isclose x y) (zip r r')) (zip (rows a) (rows (eye ?n :: 'a ndarray)))
      \<longleftrightarrow> (\<forall>i<?n. \<forall>j<?n. isclose (rows a ! i ! j) (if i = j then 1 else 0))"
    by (auto simp: list_all_length len eye_def rowlen)
  also have "\<dots> \<longleftrightarrow> is_identity a"
    by (auto simp: is_identity_def list_all_iff)
  finally show ?thesis
    using sq by (simp add: allclose_def eye_def)
qed

lemma hstack_ones:
  fixes c :: "('a::one) ndarray"
  assumes "ndarray_ok c"
  shows "hstack c (strided_scalar (nrows c, Suc 0) 1) = Inr (append_ones c)"
proof -
  have len: "length (rows c) = nrows c" using assms by (simp add: ndarray_ok_def)
  have "zip (rows c) (replicate (nrows c) [1::'a]) = map (\<lambda>r. (r, [1])) (rows c)"
    using len by (simp add: zip_replicate2)
  then show ?thesis
    by (simp add: hstack_def strided_scalar_def append_ones_def comp_def)
qed

lemma drop_last_column_append_ones: "drop_last_column (append_ones c) = (c :: 'a::one ndarray)"
  by (simp add: drop_last_column_def append_ones_def comp_def)

lemma get_coords_eq_spec:
  fixes P :: "('a::linordered_field) Pointset"
  assumes d: "0 \<le> dim h P" and a: "affine_ok (nat (dim h P + 1)) (affine P)"
    and co: "coords_ok (cells h (coordinates P))"
    and C: "asanyarray (cells h (coordinates P)) = Inr c"
  shows "get_coords h P b = Inr (get_coords_spec c (affine P) (homogeneous P) b)"
proof -
  from co C have cok: "ndarray_ok c" and cshape: "shape_of (cells h (coordinates P)) = (nrows c, ncols c)"
    by (simp_all add: coords_ok_def)
  from a have aok: "ndarray_ok (affine P)" and sq: "ncols (affine P) = nrows (affine P)"
    and nr: "nrows (affine P) = nat (dim h P + 1)"
    by (simp_all add: affine_ok_def)
  have dimc: "dim h P = int (ncols c) - (if homogeneous P then 1 else 0)"
    by (simp add: dim_def cshape)
  let ?hc = "if homogeneous P then c else append_ones c"
  have hc: "homogeneous_coords h P = Inr ?hc"
    by (simp add: homogeneous_coords_def C cshape hstack_ones[OF cok])
  have nchc: "ncols ?hc = nrows (affine P)"
    using d dimc nr by (auto simp: append_ones_def)
  have mm: "matmul (affine P) (T ?hc) = Inr (matrix_product (affine P) (T ?hc))"
    using nchc sq by (simp add: matmul_def T_def)
  have ident: "allclose (affine P) (eye (nrows (affine P))) = Inr (is_identity (affine P))"
    by (rule allclose_eye[OF aok sq])
  show ?thesis
  proof (cases "homogeneous P = b \<and> is_identity (affine P)")
    case True
    then show ?thesis
      by (cases b) (simp_all add: get_coords_def ident C get_coords_spec_def drop_last_column_append_ones)
  next
    case False
    then show ?thesis
      using mm by (auto simp: get_coords_def ident hc get_coords_spec_def Let_def)
  qed
qed

lemma get_coords_spec_shape:
  assumes "int (ncols c) - (if hom then 1 else 0) = d" and "0 \<le> d" and "nrows a = nat (d + 1)"
  shows "nrows (get_coords_spec c a hom b) = nrows c"
    and "int (ncols (get_coords_spec c a hom b)) = (if b then d + 1 else d)"
  using assms
  by (auto simp: get_coords_spec_def Let_def T_def matrix_product_def append_ones_def drop_last_column_def)

lemma upt_2: "[0..<2] = [0, 1]" by (simp add: upt_rec)
lemma upt_3: "[0..<3] = [0, 1, 2]" by (simp add: upt_rec)

text \<open>
  Claim C1. For every constructed Pointset whose coordinate object converts to a dense array
  of the declared shape \<open>[N, k]\<close>, \<open>get_coords(as_homogeneous=b)\<close> returns the array the
  contract describes (ones column appended unless homogeneous, product with the affine
  unless the identity check of \<open>np.allclose\<close> holds, last column dropped for Cartesian
  output), with \<open>N\<close> rows and \<open>dim\<close> or \<open>dim + 1\<close> columns.
\<close>

theorem get_coords_contract:
  fixes P :: "('a::linordered_field) Pointset"
  assumes init: "Pointset_init h c aff hom = Inr P"
    and aok: "ndarray_ok (affine P)"
    and co: "coords_ok (cells h c)"
    and arr: "asanyarray (cells h c) = Inr arr"
  shows "get_coords h P b = Inr (get_coords_spec arr (affine P) hom b)
       \<and> nrows (get_coords_spec arr (affine P) hom b) = n_coords h P
       \<and> int (ncols (get_coords_spec arr (affine P) hom b)) = (if b then dim h P + 1 else dim h P)"
proof -
  note D = Pointset_init_InrD[OF init aok]
  from co arr have shp: "shape_of (cells h c) = (nrows arr, ncols arr)"
    by (simp add: coords_ok_def)
  have dimc: "int (ncols arr) - (if hom then 1 else 0) = dim h P"
    by (simp add: dim_def D(1,2) shp)
  have nr: "nrows (affine P) = nat (dim h P + 1)"
    using D(4) by (simp add: affine_ok_def)
  have "get_coords h P b = Inr (get_coords_spec arr (affine P) (homogeneous P) b)"
    using D(3,4) co arr by (intro get_coords_eq_spec) (simp_all add: D(1))
  moreover have "nrows (get_coords_spec arr (affine P) hom b) = n_coords h P"
    using get_coords_spec_shape(1)[OF dimc D(3) nr] by (simp add: n_coords_def D(1) shp)
  moreover note get_coords_spec_shape(2)[OF dimc D(3) nr, of b]
  ultimately show ?thesis by (simp add: D(2))
qed

theorem get_coords_contract_witness:
  "get_coords \<lparr>cells = (\<lambda>_. Dense \<lparr>nrows = 2, ncols = 2, rows = [[1, 2], [3, 4 :: rat]]\<rparr>), next_ref = 1\<rparr>
      \<lparr>coordinates = 0,
       affine = \<lparr>nrows = 3, ncols = 3, rows = [[2, 0, 1], [0, 1, 0], [0, 0, 1 :: rat]]\<rparr>,
       homogeneous = False\<rparr> False
   = Inr \<lparr>nrows = 2, ncols = 2, rows = [[3, 2], [7, 4]]\<rparr>"
  (is "get_coords ?h ?P False = Inr ?r")
proof -
  let ?a = "\<lparr>nrows = 3, ncols = 3, rows = [[2, 0, 1], [0, 1, 0], [0, 0, 1 :: rat]]\<rparr>"
  let ?c = "\<lparr>nrows = 2, ncols = 2, rows = [[1, 2], [3, 4 :: rat]]\<rparr>"
  have init: "Pointset_init ?h 0 (Some ?a) False = Inr ?P"
    by (simp add: Pointset_init_def dim_def Let_def)
  have aok: "ndarray_ok (affine ?P)" by (simp add: ndarray_ok_def)
  have co: "coords_ok (cells ?h 0)" by (simp add: coords_ok_def ndarray_ok_def)
  have arr: "asanyarray (cells ?h 0) = Inr ?c" by simp
  have spec: "get_coords_spec ?c (affine ?P) False False = ?r"
    by (simp add: get_coords_spec_def is_identity_def isclose_def atol_def rtol_def
          append_ones_def T_def matrix_product_def drop_last_column_def upt_2 upt_3)
  show ?thesis
    using get_coords_contract[OF init aok co arr, of False] spec by simp
qed



text \<open>
  \<open>dataclasses.replace\<close> runs the constructor's checks on the product, so a matrix whose
  last row is not \<open>[0, ..., 0, 1]\<close> is refused.
\<close>

lemma Pointset_rmatmul_revalidates:
  "Pointset_rmatmul \<lparr>cells = (\<lambda>_. Dense \<lparr>nrows = 2, ncols = 2, rows = [[1, 2], [3, 4 :: rat]]\<rparr>), next_ref = 1\<rparr>
      \<lparr>coordinates = 0,
       affine = \<lparr>nrows = 3, ncols = 3, rows = [[1, 0, 0], [0, 1, 0], [0, 0, 1 :: rat]]\<rparr>,
       homogeneous = False\<rparr>
      \<lparr>nrows = 3, ncols = 3, rows = [[2, 0, 0], [0, 2, 0], [0, 0, 2 :: rat]]\<rparr>
   = Inl (ValueError ''Invalid affine matrix'')"
  by (simp add: Pointset_rmatmul_def matmul_def matrix_product_def Pointset_init_def dim_def Let_def upt_3)




subsection \<open>Grid masks\<close>

lemma upt_8: "[0..<8] = [0,1,2,3,4,5,6,7]"
  by (simp add: upt_rec)

text \<open>
  Claim C2 (the code departs from it). Building a grid from a mask and turning it back into
  a mask of the same shape should reproduce the true positions of the mask. For the
  \<open>2 \<times> 2 \<times> 2\<close> mask whose only true voxel is \<open>(0, 0, 1)\<close>, \<open>from_mask\<close> stores the single
  coordinate row \<open>[0, 0, 1]\<close>, and \<open>to_mask\<close> with shape \<open>(2, 2, 2)\<close> returns the volume that is
  true everywhere: the coordinate array is used as one index array on the first axis, so
  each of its entries marks a whole slab.
\<close>

theorem Grid_round_trip_fills_slabs:
  "Grid_from_mask \<lparr>cells = (\<lambda>_. Dense \<lparr>nrows = 0, ncols = 0, rows = []\<rparr>), next_ref = 0\<rparr>
       \<lparr>dataobj = \<lparr>shape = [2, 2, 2], data = [False, True, False, False, False, False, False, False]\<rparr>,
        img_affine = (eye 4 :: rat ndarray)\<rparr>
     = Inr (\<lparr>coordinates = 0, affine = eye 4, homogeneous = False\<rparr>,
            snd (alloc \<lparr>cells = (\<lambda>_. Dense \<lparr>nrows = 0, ncols = 0, rows = []\<rparr>), next_ref = 0\<rparr>
                       (Dense \<lparr>nrows = 1, ncols = 3, rows = [[0, 0, 1]]\<rparr>)))
   \<and> Grid_to_mask
         (snd (alloc \<lparr>cells = (\<lambda>_. Dense \<lparr>nrows = 0, ncols = 0, rows = []\<rparr>), next_ref = 0\<rparr>
                     (Dense \<lparr>nrows = 1, ncols = 3, rows = [[0, 0, 1]]\<rparr>)))
         \<lparr>coordinates = 0, affine = (eye 4 :: rat ndarray), homogeneous = False\<rparr>
         (Some [2, 2, 2])
     = Inr \<lparr>dataobj = \<lparr>shape = [2, 2, 2], data = [True, True, True, True, True, True, True, True]\<rparr>,
            img_affine = eye 4\<rparr>"
proof -
  have nz: "nonzero \<lparr>shape = [2, 2, 2], data = [False, True, False, False, False, False, False, False]\<rparr>
              = Inr [[0], [0], [1]]"
    by (simp add: nonzero_def upt_8 upt_3 Let_def)
  have c: "np_c [[0], [0], [1 :: int]] = \<lparr>nrows = 1, ncols = 3, rows = [[0, 0, 1]]\<rparr>"
    by (simp add: np_c_def)
  have e: "eye 4 = \<lparr>nrows = 4, ncols = 4, rows = [[1, 0, 0, 0], [0, 1, 0, 0], [0, 0, 1, 0], [0, 0, 0, 1 :: rat]]\<rparr>"
    by (simp add: eye_def upt_rec)
  have A: "Grid_from_mask \<lparr>cells = (\<lambda>_. Dense \<lparr>nrows = 0, ncols = 0, rows = []\<rparr>), next_ref = 0\<rparr>
       \<lparr>dataobj = \<lparr>shape = [2, 2, 2], data = [False, True, False, False, False, False, False, False]\<rparr>,
        img_affine = (eye 4 :: rat ndarray)\<rparr>
     = Inr (\<lparr>coordinates = 0, affine = eye 4, homogeneous = False\<rparr>,
            snd (alloc \<lparr>cells = (\<lambda>_. Dense \<lparr>nrows = 0, ncols = 0, rows = []\<rparr>), next_ref = 0\<rparr>
                       (Dense \<lparr>nrows = 1, ncols = 3, rows = [[0, 0, 1]]\<rparr>)))"
    unfolding Grid_from_mask_def
    by (simp add: nz c astype_able_int_def alloc_def Pointset_init_def dim_def Let_def e)
  have B: "Grid_to_mask
         (snd (alloc \<lparr>cells = (\<lambda>_. Dense \<lparr>nrows = 0, ncols = 0, rows = []\<rparr>), next_ref = 0\<rparr>
                     (Dense \<lparr>nrows = 1, ncols = 3, rows = [[0, 0, 1]]\<rparr>)))
         \<lparr>coordinates = 0, affine = (eye 4 :: rat ndarray), homogeneous = False\<rparr>
         (Some [2, 2, 2])
     = Inr \<lparr>dataobj = \<lparr>shape = [2, 2, 2], data = [True, True, True, True, True, True, True, True]\<rparr>,
            img_affine = eye 4\<rparr>"
    unfolding Grid_to_mask_def
    by (simp add: alloc_def zeros_def setitem_true_def dim_def py_take_def upt_8)
  show ?thesis using A B by (rule conjI)
qed

text \<open>
  On the \<open>1 \<times> 1 \<times> 2\<close> mask whose only true voxel is \<open>(0, 0, 1)\<close> the round trip does not
  return at all: the entry 1 is read as an index into the first axis, of length 1.
\<close>

lemma Grid_round_trip_index_error:
  "Grid_from_mask \<lparr>cells = (\<lambda>_. Dense \<lparr>nrows = 0, ncols = 0, rows = []\<rparr>), next_ref = 0\<rparr>
       \<lparr>dataobj = \<lparr>shape = [1, 1, 2], data = [False, True]\<rparr>, img_affine = (eye 4 :: rat ndarray)\<rparr>
     = Inr (\<lparr>coordinates = 0, affine = eye 4, homogeneous = False\<rparr>,
            snd (alloc \<lparr>cells = (\<lambda>_. Dense \<lparr>nrows = 0, ncols = 0, rows = []\<rparr>), next_ref = 0\<rparr>
                       (Dense \<lparr>nrows = 1, ncols = 3, rows = [[0, 0, 1]]\<rparr>)))
   \<and> Grid_to_mask
         (snd (alloc \<lparr>cells = (\<lambda>_. Dense \<lparr>nrows = 0, ncols = 0, rows = []\<rparr>), next_ref = 0\<rparr>
                     (Dense \<lparr>nrows = 1, ncols = 3, rows = [[0, 0, 1]]\<rparr>)))
         \<lparr>coordinates = 0, affine = (eye 4 :: rat ndarray), homogeneous = False\<rparr>
         (Some [1, 1, 2])
     = Inl (IndexError ''index is out of bounds for axis 0'')"
proof -
  have nz: "nonzero \<lparr>shape = [Suc 0, Suc 0, 2], data = [False, True]\<rparr> = Inr [[0], [0], [1]]"
    by (simp add: nonzero_def upt_2 upt_3 Let_def)
  have c: "np_c [[0], [0], [1 :: int]] = \<lparr>nrows = 1, ncols = 3, rows = [[0, 0, 1]]\<rparr>"
    by (simp add: np_c_def)
  have e: "eye 4 = \<lparr>nrows = 4, ncols = 4, rows = [[1, 0, 0, 0], [0, 1, 0, 0], [0, 0, 1, 0], [0, 0, 0, 1 :: rat]]\<rparr>"
    by (simp add: eye_def upt_rec)
  show ?thesis
    unfolding Grid_from_mask_def Grid_to_mask_def
    by (simp add: nz c astype_able_int_def alloc_def Pointset_init_def dim_def Let_def e
        zeros_def setitem_true_def py_take_def)
qed

text \<open>
  Claim C9 (the code departs from it). \<open>to_mask\<close> should return a volume that is true exactly
  at the grid's coordinates, whose shape without an explicit shape is taken from the
  coordinates. For the grid with the single point \<open>(1, 1, 1)\<close>: without a shape the default
  is the maximum of every row cut to \<open>dim\<close> entries, here \<open>(1,)\<close>, and the assignment raises
  IndexError; with the shape \<open>(3, 3, 3)\<close> the nine voxels \<open>(1, _, _)\<close> are true, not just
  \<open>(1, 1, 1)\<close>.
\<close>

theorem Grid_to_mask_default_shape_example:
  "Grid_to_mask \<lparr>cells = (\<lambda>_. Dense \<lparr>nrows = 1, ncols = 3, rows = [[1, 1, 1]]\<rparr>), next_ref = 1\<rparr>
       \<lparr>coordinates = 0, affine = (eye 4 :: rat ndarray), homogeneous = False\<rparr> None
     = Inl (IndexError ''index is out of bounds for axis 0'')
   \<and> Grid_to_mask \<lparr>cells = (\<lambda>_. Dense \<lparr>nrows = 1, ncols = 3, rows = [[1, 1, 1]]\<rparr>), next_ref = 1\<rparr>
       \<lparr>coordinates = 0, affine = (eye 4 :: rat ndarray), homogeneous = False\<rparr> (Some [3, 3, 3])
     = Inr \<lparr>dataobj = \<lparr>shape = [3, 3, 3],
                        data = replicate 9 False @ replicate 9 True @ replicate 9 False\<rparr>,
            img_affine = eye 4\<rparr>"
proof -
  have u: "[0..<27] = [0,1,2,3,4,5,6,7,8,9,10,11,12,13,14,15,16,17,18,19,20,21,22,23,24,25,26]"
    by (simp add: upt_rec)
  have r: "replicate 9 x = [x, x, x, x, x, x, x, x, x]" for x :: bool
    by (simp add: numeral_eq_Suc)
  show ?thesis
    unfolding Grid_to_mask_def
    by (simp add: amax_axis1_def zeros_def setitem_true_def dim_def py_take_def u r)
qed

text \<open>
  Without an explicit shape the call raises on every non-empty dense grid: the first entry
  of the default shape is the maximum of the first coordinate row, and that maximum is one
  of the indices then applied to the first axis.
\<close>

lemma fold_max_mem: "fold max xs (x :: int) \<in> set (x # xs)"
proof (induction xs arbitrary: x)
  case Nil
  show ?case by simp
next
  case (Cons y ys)
  have "fold max ys (max y x) \<in> set (max y x # ys)" by (rule Cons.IH)
  moreover have "max y x = x \<or> max y x = y" by (simp add: max_def)
  ultimately show ?case by auto
qed

lemma Grid_to_mask_default_shape_raises:
  assumes cell: "cells h (coordinates g) = Dense a"
    and ok: "ndarray_ok a"
    and n: "0 < nrows a"
    and k: "0 < ncols a"
    and hom: "\<not> homogeneous g"
  shows "\<exists>e. Grid_to_mask h g None = Inl e"
proof -
  from ok n obtain r rs where rows: "rows a = r # rs"
    by (cases "rows a") (auto simp: ndarray_ok_def)
  from ok rows have lr: "length r = ncols a"
    by (auto simp: ndarray_ok_def list_all_iff)
  with k obtain x xs where r: "r = x # xs" by (cases r) auto
  let ?m = "fold max xs x"
  have d: "dim h g = int (ncols a)" using cell hom by (simp add: dim_def)
  have mem: "?m \<in> set r" using fold_max_mem[of xs x] r by simp
  have am: "amax_axis1 a = Inr (?m # map (\<lambda>r. fold max (tl r) (hd r)) rs)"
    using k rows r by (simp add: amax_axis1_def)
  obtain k' where k': "ncols a = Suc k'" using k by (cases "ncols a") auto
  have "py_take (dim h g) (?m # map (\<lambda>r. fold max (tl r) (hd r)) rs)
          = ?m # take k' (map (\<lambda>r. fold max (tl r) (hd r)) rs)"
    unfolding d k' py_take_def by (simp del: of_nat_Suc)
  then obtain ms where shp: "py_take (dim h g) (?m # map (\<lambda>r. fold max (tl r) (hd r)) rs) = ?m # ms"
    by blast
  have idx: "?m \<in> set (concat (map (py_take (dim h g)) (rows a)))"
    using mem lr d rows by (simp add: py_take_def)
  show ?thesis
  proof (cases "zeros (?m # ms)")
    case (Inl e)
    then show ?thesis
      unfolding Grid_to_mask_def by (simp add: cell am shp)
  next
    case (Inr z)
    then have z: "shape z = nat ?m # map nat ms" and pos: "0 \<le> ?m"
      by (auto simp: zeros_def split: if_splits)
    have "list_ex (\<lambda>i. i < - int (nat ?m) \<or> int (nat ?m) \<le> i) (concat (map (py_take (dim h g)) (rows a)))"
      unfolding list_ex_iff using idx pos by (intro bexI[of _ ?m]) auto
    then have "setitem_true z (concat (map (py_take (dim h g)) (rows a))) = Inl (IndexError ''index is out of bounds for axis 0'')"
      by (simp add: setitem_true_def z)
    then show ?thesis
      unfolding Grid_to_mask_def by (simp add: cell am shp Inr)
  qed
qed


subsection \<open>Triangular meshes\<close>

lemma affine_ok_eye: "affine_ok (Suc k) (eye (Suc k) :: ('a::{zero,one}) ndarray)"
proof -
  have "last (rows (eye (Suc k) :: 'a ndarray)) = map (\<lambda>j. if k = j then 1 else 0) [0..<Suc k]"
    by (simp add: eye_def)
  also have "\<dots> = (unit_row (Suc k) :: 'a list)"
    by (rule nth_equalityI) (auto simp: nth_unit_row simp del: upt_Suc)
  finally have L: "last (rows (eye (Suc k) :: 'a ndarray)) = unit_row (Suc k)" .
  have nr: "nrows (eye (Suc k) :: 'a ndarray) = Suc k" "ncols (eye (Suc k) :: 'a ndarray) = Suc k"
    by (simp_all add: eye_def)
  show ?thesis
    unfolding affine_ok_def using ndarray_ok_eye[of "Suc k"] L nr by blast
qed

lemma Pointset_init_None:
  "Pointset_init h r None False
     = Inr \<lparr>coordinates = r, affine = (eye (Suc (snd (shape_of (cells h r)))) :: ('a::{zero,one}) ndarray),
            homogeneous = False\<rparr>"
proof -
  let ?k = "snd (shape_of (cells h r))"
  have n: "nat (int ?k + 1) = Suc ?k" by simp
  have "Pointset_init h r None False = Pointset_init h r (Some (eye (Suc ?k) :: 'a ndarray)) False"
    by (simp add: Pointset_init_def n del: of_nat_Suc)
  also have "\<dots> = Inr \<lparr>coordinates = r, affine = eye (Suc ?k), homogeneous = False\<rparr>"
    by (rule Pointset_init_Some[where d = "int ?k"]) (simp_all add: affine_ok_eye n del: of_nat_Suc)
  finally show ?thesis .
qed

lemma TriangularMesh_init_tuple:
  "(TriangularMesh_init h (TupleV [ArrayV r, t]) :: pyerr + ('a::{zero,one}) TriangularMesh)
     = Inr \<lparr>coordinates = r, affine = eye (Suc (snd (shape_of (cells h r)))), homogeneous = False,
            triangles = t\<rparr>"
  by (simp add: TriangularMesh_init_def Pointset_init_None)

text \<open>
  Claim C10. \<open>TriangularMesh\<close> accepts three input shapes: a 2-tuple \<open>(coords, triangles)\<close>,
  an object with the attributes \<open>coords\<close> and \<open>triangles\<close>, and an object with a \<open>get_mesh()\<close>
  accessor that returns such a pair. A 2-tuple of a coordinate array and a triangle table
  is accepted, with the identity as affine; each of the two object shapes gives the very
  result of the 2-tuple with the same data; an input that matches none of the three (a
  dict, for one) raises the ValueError of the last branch.
\<close>

theorem TriangularMesh_init_dispatch:
  "(TriangularMesh_init h (TupleV [ArrayV r, t]) :: pyerr + ('a::{zero,one}) TriangularMesh)
       = Inr \<lparr>coordinates = r, affine = eye (Suc (snd (shape_of (cells h r)))), homogeneous = False,
              triangles = t\<rparr>
   \<and> (map_of attrs ''coords'' = Some cv \<and> map_of attrs ''triangles'' = Some tv
        \<longrightarrow> (TriangularMesh_init h (ObjectV attrs) :: pyerr + 'a TriangularMesh)
              = TriangularMesh_init h (TupleV [cv, tv]))
   \<and> (\<not> (hasattr (ObjectV acc) ''coords'' \<and> hasattr (ObjectV acc) ''triangles'')
        \<and> map_of acc ''get_mesh'' = Some (MethodV (Inr [cv', tv']))
        \<longrightarrow> (TriangularMesh_init h (ObjectV acc) :: pyerr + 'a TriangularMesh)
              = TriangularMesh_init h (TupleV [cv', tv']))
   \<and> (\<not> is_tuple2 mesh \<and> \<not> (hasattr mesh ''coords'' \<and> hasattr mesh ''triangles'')
        \<and> \<not> hasattr mesh ''get_mesh''
        \<longrightarrow> (TriangularMesh_init h mesh :: pyerr + 'a TriangularMesh)
              = Inl (ValueError ''Cannot interpret input as triangular mesh''))"
proof (intro conjI impI)
  show "(TriangularMesh_init h (TupleV [ArrayV r, t]) :: pyerr + 'a TriangularMesh)
       = Inr \<lparr>coordinates = r, affine = eye (Suc (snd (shape_of (cells h r)))), homogeneous = False,
              triangles = t\<rparr>"
    by (rule TriangularMesh_init_tuple)
next
  assume "map_of attrs ''coords'' = Some cv \<and> map_of attrs ''triangles'' = Some tv"
  then show "(TriangularMesh_init h (ObjectV attrs) :: pyerr + 'a TriangularMesh)
              = TriangularMesh_init h (TupleV [cv, tv])"
    by (simp add: TriangularMesh_init_def)
next
  assume "\<not> (hasattr (ObjectV acc) ''coords'' \<and> hasattr (ObjectV acc) ''triangles'')
        \<and> map_of acc ''get_mesh'' = Some (MethodV (Inr [cv', tv']))"
  then show "(TriangularMesh_init h (ObjectV acc) :: pyerr + 'a TriangularMesh)
              = TriangularMesh_init h (TupleV [cv', tv'])"
    by (auto simp: TriangularMesh_init_def)
next
  assume "\<not> is_tuple2 mesh \<and> \<not> (hasattr mesh ''coords'' \<and> hasattr mesh ''triangles'')
        \<and> \<not> hasattr mesh ''get_mesh''"
  then show "(TriangularMesh_init h mesh :: pyerr + 'a TriangularMesh)
              = Inl (ValueError ''Cannot interpret input as triangular mesh'')"
    by (auto simp: TriangularMesh_init_def)
qed

theorem TriangularMesh_init_dispatch_witness:
  "(TriangularMesh_init
       \<lparr>cells = (\<lambda>_. Dense \<lparr>nrows = 3, ncols = 2, rows = [[0, 0], [1, 0], [0, 1 :: rat]]\<rparr>), next_ref = 1\<rparr>
       (TupleV [ArrayV 0, TupleV []]) :: pyerr + rat TriangularMesh)
     = Inr \<lparr>coordinates = 0, affine = eye 3, homogeneous = False, triangles = TupleV []\<rparr>
   \<and> (TriangularMesh_init
       \<lparr>cells = (\<lambda>_. Dense \<lparr>nrows = 3, ncols = 2, rows = [[0, 0], [1, 0], [0, 1 :: rat]]\<rparr>), next_ref = 1\<rparr>
       (ObjectV [(''coords'', ArrayV 0), (''triangles'', TupleV [])]) :: pyerr + rat TriangularMesh)
     = Inr \<lparr>coordinates = 0, affine = eye 3, homogeneous = False, triangles = TupleV []\<rparr>
   \<and> (TriangularMesh_init
       \<lparr>cells = (\<lambda>_. Dense \<lparr>nrows = 3, ncols = 2, rows = [[0, 0], [1, 0], [0, 1 :: rat]]\<rparr>), next_ref = 1\<rparr>
       (ObjectV [(''get_mesh'', MethodV (Inr [ArrayV 0, TupleV []]))]) :: pyerr + rat TriangularMesh)
     = Inr \<lparr>coordinates = 0, affine = eye 3, homogeneous = False, triangles = TupleV []\<rparr>
   \<and> (TriangularMesh_init
       \<lparr>cells = (\<lambda>_. Dense \<lparr>nrows = 3, ncols = 2, rows = [[0, 0], [1, 0], [0, 1 :: rat]]\<rparr>), next_ref = 1\<rparr>
       (DictV [(''coords'', ArrayV 0), (''triangles'', TupleV [])]) :: pyerr + rat TriangularMesh)
     = Inl (ValueError ''Cannot interpret input as triangular mesh'')"
  using TriangularMesh_init_dispatch
    [where h = "\<lparr>cells = (\<lambda>_. Dense \<lparr>nrows = 3, ncols = 2, rows = [[0, 0], [1, 0], [0, 1 :: rat]]\<rparr>), next_ref = 1\<rparr>"
       and r = 0 and t = "TupleV []" and 'a = rat
       and attrs = "[(''coords'', ArrayV 0), (''triangles'', TupleV [])]"
       and cv = "ArrayV 0" and tv = "TupleV []"
       and acc = "[(''get_mesh'', MethodV (Inr [ArrayV 0, TupleV []]))]"
       and cv' = "ArrayV 0" and tv' = "TupleV []"
       and mesh = "DictV [(''coords'', ArrayV 0), (''triangles'', TupleV [])]"]
  by (simp add: numeral_3_eq_3)

subsection \<open>Families of meshes\<close>

text \<open>\<open>get_mesh\<close> of a \<open>TriangularMesh\<close> raises whatever the mesh and the name.\<close>

lemma get_mesh_raises:
  "get_mesh h self name = Inl (TypeError ''get_coords() got an unexpected keyword argument name'')"
  by (simp add: get_mesh_def get_coords_kw_def)

lemma TriMeshFamily_load_raises:
  fixes h :: "('a::linordered_field) heap"
  assumes "items \<noteq> []"
  shows "\<exists>e. TriMeshFamily_load h items st = Inl e"
proof -
  from assms obtain name mesh rest where items: "items = (name, mesh) # rest"
    by (cases items) auto
  obtain tri coords where st: "st = (tri, coords)" by (cases st)
  show ?thesis
  proof (cases "TriangularMesh_init h mesh :: pyerr + 'a TriangularMesh")
    case (Inl e)
    then show ?thesis unfolding items st by simp
  next
    case (Inr m)
    then show ?thesis unfolding items st by (simp add: get_mesh_raises)
  qed
qed

lemma dict_set_nonempty: "dict_set k v d \<noteq> []"
  by (cases d) (auto split: if_splits)

lemma foldl_dict_set_nonempty:
  "d \<noteq> [] \<Longrightarrow> foldl (\<lambda>d (k, v). dict_set k v d) d pairs \<noteq> []"
proof (induction pairs arbitrary: d)
  case Nil
  then show ?case by simp
next
  case (Cons p pairs)
  obtain k v where p: "p = (k, v)" by (cases p)
  have "foldl (\<lambda>d (k, v). dict_set k v d) (dict_set k v d) pairs \<noteq> []"
    by (rule Cons.IH) (rule dict_set_nonempty)
  then show ?case by (simp add: p)
qed

lemma py_dict_nonempty:
  assumes "pairs \<noteq> []"
  shows "py_dict pairs \<noteq> []"
proof -
  from assms obtain k v rest where pairs: "pairs = (k, v) # rest"
    by (cases pairs) auto
  have "foldl (\<lambda>d (k, v). dict_set k v d) (dict_set k v []) rest \<noteq> []"
    by (rule foldl_dict_set_nonempty) (rule dict_set_nonempty)
  then show ?thesis by (simp add: py_dict_def pairs)
qed

text \<open>The constructor fails on every mapping with at least one entry; it returns only for
  the empty mapping with an explicit default.\<close>

lemma TriMeshFamily_init_raises:
  assumes "mapping \<noteq> []"
  shows "\<exists>e. TriMeshFamily_init h mapping dflt = Inl e"
proof -
  from py_dict_nonempty[OF assms] TriMeshFamily_load_raises
  obtain e where "TriMeshFamily_load h (py_dict mapping) (NoneV, []) = Inl e" by blast
  then show ?thesis by (simp add: TriMeshFamily_init_def)
qed

lemma TriMeshFamily_init_empty:
  "TriMeshFamily_init h [] None = Inl StopIteration"
  "TriMeshFamily_init h [] (Some d) = Inr \<lparr>family_triangles = NoneV, family_coords = [], family_default = d\<rparr>"
  by (simp_all add: TriMeshFamily_init_def py_dict_def)

text \<open>The accessors of a family, on the fields as the constructor would leave them.\<close>

lemma TriMeshFamily_get_coords_KeyError:
  assumes "name \<notin> set (get_names f)"
  shows "TriMeshFamily_get_coords f (Some name) = Inl (KeyError name)"
proof -
  from assms have "map_of (family_coords f) name = None"
    by (simp add: get_names_def map_of_eq_None_iff)
  then show ?thesis by (simp add: TriMeshFamily_get_coords_def)
qed

lemma TriMeshFamily_get_coords_default:
  "TriMeshFamily_get_coords f None = TriMeshFamily_get_coords f (Some (family_default f))"
  by (simp add: TriMeshFamily_get_coords_def)

text \<open>
  Claim C3 (the code departs from it). Constructing a family from the mapping
  \<open>{"a": mesh1, "b": mesh2}\<close> of two 2-tuples that share their triangle table should succeed
  and register both names. The constructor raises TypeError at the first entry instead:
  \<open>TriangularMesh.get_mesh\<close> passes the keyword \<open>name\<close> to \<open>Pointset.get_coords\<close>, whose
  signature has no such parameter.
\<close>

theorem TriMeshFamily_init_type_error:
  "TriMeshFamily_init
       \<lparr>cells = (\<lambda>r. if r = 0 then Dense \<lparr>nrows = 3, ncols = 2, rows = [[0, 0], [1, 0], [0, 1 :: rat]]\<rparr>
                      else Dense \<lparr>nrows = 3, ncols = 2, rows = [[0, 0], [2, 0], [0, 2]]\<rparr>),
        next_ref = 2\<rparr>
       [(''a'', TupleV [ArrayV 0, TupleV [TupleV []]]), (''b'', TupleV [ArrayV 1, TupleV [TupleV []]])]
       None
     = Inl (TypeError ''get_coords() got an unexpected keyword argument name'')"
  by (simp add: TriMeshFamily_init_def py_dict_def TriangularMesh_init_tuple get_mesh_raises)

end
